theory Spec2Isabelle
  imports Complex_Main "HOL-Library.Char_ord" "HOL-Library.List_Lexorder"
begin

section \<open>Python values used by the cost module\<close>

text \<open>
  Python \<open>str\<close> is modelled as \<open>string\<close> (a list of 8-bit characters), so the model
  covers ASCII text; \<open>sorted\<close> on strings is the lexicographic order on character
  codes, which is the order of \<open>HOL-Library.List_Lexorder\<close> over \<open>HOL-Library.Char_ord\<close>.
  Python \<open>float\<close> results that are quotients of integers are modelled as exact
  rationals (\<open>rat\<close>); the rounding of binary64 is not modelled.
\<close>

section \<open>modules/cost/validator.py\<close>

subsection \<open>Configuration and data frame\<close>

text \<open>
  \<open>ConfigLoader.get_perusahaan()\<close> returns the dictionary \<open>perusahaan\<close> of the JSON
  configuration: config key to company data. The loader checks that every entry has the
  fields \<open>kode_perusahaan\<close>, \<open>nama\<close>, \<open>sheet_name\<close> and \<open>holding\<close>. The dictionary is
  an association list in insertion order (the order \<open>.items()\<close> iterates in).
\<close>

record company_data =
  kode_perusahaan :: string
  nama :: string
  sheet_name :: string
  holding :: string

type_synonym perusahaan = "(string \<times> company_data) list"

text \<open>
  A pandas \<open>DataFrame\<close> restricted to what the validator reads: its column names and,
  per column, the values of the rows. \<open>DataFrame.empty\<close> is true when either axis has
  length 0.
\<close>

record dataframe =
  df_columns :: "string list"
  df_nrows :: nat
  df_data :: "string \<Rightarrow> string list"

definition df_empty :: "dataframe \<Rightarrow> bool" where
  "df_empty df = (df_columns df = [] \<or> df_nrows df = 0)"

record ValidationResult =
  total_companies :: nat
  processed_companies :: nat
  missing_companies :: "string list"
  validation_warnings :: "string list"
  company_coverage_percent :: rat
  status :: string
  config_key_to_name :: "string \<rightharpoonup> string"

definition ValidationResult_init :: ValidationResult where
  "ValidationResult_init =
     \<lparr> total_companies = 0, processed_companies = 0, missing_companies = [],
       validation_warnings = [], company_coverage_percent = 0, status = ''success'',
       config_key_to_name = Map.empty \<rparr>"

subsection \<open>validate_company_coverage\<close>

text \<open>
  The first loop of \<open>validate_company_coverage\<close>: for every config entry, map the data
  code to the config key when the code is a non-empty string (a later entry with the same
  code overwrites an earlier one), and map the config key to the company name.
\<close>

fun build_mappings ::
  "perusahaan \<Rightarrow> (string \<rightharpoonup> string) \<times> (string \<rightharpoonup> string) \<Rightarrow>
     (string \<rightharpoonup> string) \<times> (string \<rightharpoonup> string)" where
  "build_mappings [] acc = acc"
| "build_mappings ((config_key, cd) # rest) (data_code_to_config_key, key_to_name) =
     build_mappings rest
       ((if kode_perusahaan cd \<noteq> [] then data_code_to_config_key(kode_perusahaan cd \<mapsto> config_key)
         else data_code_to_config_key),
        key_to_name(config_key \<mapsto> nama cd))"

text \<open>
  \<open>set(dataframe['kode_perusahaan'].unique())\<close> when the frame is not empty and has the
  column, the empty set otherwise. Sets are duplicate-free lists; every result computed
  from them below (a length, a sorted list) does not depend on the order.
\<close>

definition processed_data_codes :: "dataframe \<Rightarrow> string list" where
  "processed_data_codes df =
     (if \<not> df_empty df \<and> ''kode_perusahaan'' \<in> set (df_columns df)
      then remdups (df_data df ''kode_perusahaan'') else [])"

text \<open>
  The second loop: a data code contributes its config key when the lookup finds one and
  the key is truthy (a non-empty string).
\<close>

definition processed_config_keys :: "(string \<rightharpoonup> string) \<Rightarrow> string list \<Rightarrow> string list" where
  "processed_config_keys data_code_to_config_key codes =
     remdups (List.map_filter
       (\<lambda>data_code. case data_code_to_config_key data_code of
            None \<Rightarrow> None
          | Some config_key \<Rightarrow> if config_key \<noteq> [] then Some config_key else None) codes)"

definition validate_company_coverage ::
  "perusahaan \<Rightarrow> dataframe \<Rightarrow> string list \<Rightarrow> nat \<times> string list \<times> (string \<rightharpoonup> string)" where
  "validate_company_coverage config df expected_companies =
     (let (data_code_to_config_key, key_to_name) = build_mappings config (Map.empty, Map.empty);
          keys = processed_config_keys data_code_to_config_key (processed_data_codes df);
          expected_set = remdups expected_companies;
          missing_config_keys = sort (filter (\<lambda>k. k \<notin> set keys) expected_set);
          processed_count = length keys
      in (processed_count, missing_config_keys, key_to_name))"

subsection \<open>determine_status and validate_upload\<close>

definition determine_status :: "rat \<Rightarrow> string" where
  "determine_status coverage_percent =
     (if coverage_percent < 90 then ''failed''
      else if coverage_percent < 100 then ''warning''
      else ''success'')"

definition validate_upload :: "perusahaan \<Rightarrow> dataframe \<Rightarrow> string list \<Rightarrow> ValidationResult" where
  "validate_upload config df expected_companies =
     (let result = ValidationResult_init\<lparr> total_companies := length expected_companies \<rparr>;
          (processed_count, missing_config_keys, key_to_name) =
             validate_company_coverage config df expected_companies;
          result = result\<lparr> processed_companies := processed_count,
                           missing_companies := missing_config_keys,
                           config_key_to_name := key_to_name \<rparr>;
          result = (if total_companies result > 0
                    then result\<lparr> company_coverage_percent :=
                           (of_nat processed_count / of_nat (total_companies result)) * 100 \<rparr>
                    else result);
          result = result\<lparr> validation_warnings := [] \<rparr>
      in result\<lparr> status := determine_status (company_coverage_percent result) \<rparr>)"

text \<open>Sample inputs: a configuration of ten companies \<open>A\<close> .. \<open>J\<close> with codes \<open>a\<close> .. \<open>j\<close>.\<close>

definition mk_company :: "string \<Rightarrow> string \<Rightarrow> string \<times> company_data" where
  "mk_company key code =
     (key, \<lparr> kode_perusahaan = code, nama = key, sheet_name = key, holding = ''H'' \<rparr>)"

definition config10 :: perusahaan where
  "config10 = map (\<lambda>(k, c). mk_company k c)
     [(''A'', ''a''), (''B'', ''b''), (''C'', ''c''), (''D'', ''d''), (''E'', ''e''),
      (''F'', ''f''), (''G'', ''g''), (''H'', ''h''), (''I'', ''i''), (''J'', ''j'')]"

definition frame_of :: "string list \<Rightarrow> dataframe" where
  "frame_of codes =
     \<lparr> df_columns = [''holding'', ''kode_perusahaan''], df_nrows = length codes,
       df_data = (\<lambda>c. if c = ''kode_perusahaan'' then codes else map (\<lambda>_. ''H'') codes) \<rparr>"

definition expected10 :: "string list" where
  "expected10 = [''A'', ''B'', ''C'', ''D'', ''E'', ''F'', ''G'', ''H'', ''I'', ''J'']"

subsection \<open>The coverage computation as the specification words it\<close>

text \<open>
  The specification speaks of the set of unit codes present in the batch and of its
  intersection with the expected set. The batch carries data codes
  (\<open>kode_perusahaan\<close>) and the expected list carries config keys, so a present unit is the
  config key that owns a data code of the batch: the key of the last configuration entry
  with that (non-empty) code.
\<close>

definition code_owner :: "perusahaan \<Rightarrow> (string \<rightharpoonup> string)" where
  "code_owner config =
     map_of (rev (map (\<lambda>(k, cd). (kode_perusahaan cd, k))
                      (filter (\<lambda>(k, cd). kode_perusahaan cd \<noteq> []) config)))"

definition batch_codes :: "dataframe \<Rightarrow> string set" where
  "batch_codes df =
     (if df_empty df \<or> ''kode_perusahaan'' \<notin> set (df_columns df) then {}
      else set (df_data df ''kode_perusahaan''))"

definition present_units :: "perusahaan \<Rightarrow> dataframe \<Rightarrow> string set" where
  "present_units config df =
     Set.filter (\<lambda>k. k \<noteq> []) (Option.these (code_owner config ` batch_codes df))"

section \<open>Python string operations\<close>

definition is_upper_char :: "char \<Rightarrow> bool" where
  "is_upper_char c = (CHR ''A'' \<le> c \<and> c \<le> CHR ''Z'')"

definition is_lower_char :: "char \<Rightarrow> bool" where
  "is_lower_char c = (CHR ''a'' \<le> c \<and> c \<le> CHR ''z'')"

definition is_digit :: "char \<Rightarrow> bool" where
  "is_digit c = (CHR ''0'' \<le> c \<and> c \<le> CHR ''9'')"

text \<open>The ASCII characters for which \<open>str.isspace\<close> holds: codes 9 to 13, 28 to 31 and 32.\<close>

definition is_space :: "char \<Rightarrow> bool" where
  "is_space c = (let n = (of_char c :: nat) in (9 \<le> n \<and> n \<le> 13) \<or> (28 \<le> n \<and> n \<le> 32))"

definition lower_char :: "char \<Rightarrow> char" where
  "lower_char c = (if is_upper_char c then char_of (of_char c + (32::nat)) else c)"

definition upper_char :: "char \<Rightarrow> char" where
  "upper_char c = (if is_lower_char c then char_of (of_char c - (32::nat)) else c)"

definition py_lower :: "string \<Rightarrow> string" where
  "py_lower s = map lower_char s"

definition py_upper :: "string \<Rightarrow> string" where
  "py_upper s = map upper_char s"

definition py_strip :: "string \<Rightarrow> string" where
  "py_strip s = rev (dropWhile is_space (rev (dropWhile is_space s)))"

text \<open>\<open>s.replace(c, '')\<close> for a one-character \<open>c\<close>.\<close>

definition remove_char :: "char \<Rightarrow> string \<Rightarrow> string" where
  "remove_char c s = filter (\<lambda>x. x \<noteq> c) s"

definition startswith :: "string \<Rightarrow> string \<Rightarrow> bool" where
  "startswith s key = (take (length key) s = key)"

text \<open>\<open>key in s\<close>: the key occurs in \<open>s\<close> as a contiguous substring.\<close>

fun py_in :: "string \<Rightarrow> string \<Rightarrow> bool" where
  "py_in key [] = (key = [])"
| "py_in key (c # cs) = (startswith (c # cs) key \<or> py_in key cs)"

text \<open>\<open>s.find(key)\<close>: the lowest offset at which the key occurs, or -1.\<close>

fun find_from :: "string \<Rightarrow> string \<Rightarrow> int \<Rightarrow> int" where
  "find_from key [] i = (if key = [] then i else - 1)"
| "find_from key (c # cs) i = (if startswith (c # cs) key then i else find_from key cs (i + 1))"

definition py_find :: "string \<Rightarrow> string \<Rightarrow> int" where
  "py_find s key = find_from key s 0"

definition digit_value :: "char \<Rightarrow> nat" where
  "digit_value c = of_char c - of_char CHR ''0''"

text \<open>\<open>int(s)\<close> for a string of decimal digits.\<close>

definition int_of_digits :: "string \<Rightarrow> int" where
  "int_of_digits s = foldl (\<lambda>acc c. 10 * acc + int (digit_value c)) 0 s"

section \<open>modules/cost/excel_reader.py\<close>

subsection \<open>Errors\<close>

text \<open>
  The reader and the detector raise \<open>ValueError\<close> with a message; the model keeps what
  the message is built from as the payload of the error. \<open>OverflowError\<close> and
  \<open>TypeError\<close> are raised by \<open>float()\<close>.
\<close>

datatype error =
    CellIndexError             \<comment> \<open>ValueError of \<open>sheet.cell\<close>: row or column below 1\<close>
  | NoPeriodHeaders int        \<comment> \<open>ValueError "No period headers found at row ..."\<close>
  | NoTypeHeaders int          \<comment> \<open>ValueError "No REAL/RKAP headers found at row ..."\<close>
  | HeaderParseFailed error    \<comment> \<open>ValueError "Failed to parse Excel headers: ..."\<close>
  | PeriodNotFound int int "(int \<times> int) list"
                               \<comment> \<open>ValueError "Period y-m not found in Excel! Available: ..."\<close>
  | MaxOfEmpty                 \<comment> \<open>ValueError of \<open>max()\<close> on an empty sequence\<close>
  | ColumnsNotDetected "string list"
                               \<comment> \<open>ValueError "Failed to detect columns: ..."\<close>
  | FloatValueError            \<comment> \<open>ValueError of \<open>float()\<close> on unparseable text\<close>
  | FloatTypeError             \<comment> \<open>TypeError of \<open>float()\<close> on an object that is no number\<close>
  | OverflowError              \<comment> \<open>OverflowError of \<open>float()\<close> on an integer beyond the double range\<close>

subsection \<open>Month and year extraction\<close>

definition MONTH_MAP :: "(string \<times> int) list" where
  "MONTH_MAP =
     [(''jan'', 1), (''feb'', 2), (''mar'', 3), (''apr'', 4), (''mei'', 5), (''juni'', 6),
      (''juli'', 7), (''agst'', 8), (''sept'', 9), (''okt'', 10), (''nov'', 11), (''des'', 12)]"

text \<open>
  \<open>_extract_month\<close>: every month key that occurs in the lowered text is recorded with the
  offset of its first occurrence, in the order of \<open>MONTH_MAP\<close>; the list is sorted by
  offset (Python's sort is stable, as \<open>sort_key\<close> is) and the first entry wins.
\<close>

definition found_months :: "string \<Rightarrow> (int \<times> int) list" where
  "found_months text_lower =
     map (\<lambda>(month_key, month_num). (month_num, py_find text_lower month_key))
         (filter (\<lambda>(month_key, month_num). py_in month_key text_lower) MONTH_MAP)"

definition extract_month :: "string \<Rightarrow> int option" where
  "extract_month text =
     (let found = found_months (py_lower text)
      in if found = [] then None else Some (fst (hd (sort_key snd found))))"

text \<open>\<open>re.search(r'20\d{2}', text)\<close>: the leftmost occurrence of \<open>20\<close> followed by two digits.\<close>

fun search_20dd :: "string \<Rightarrow> string option" where
  "search_20dd (a # b # c # d # rest) =
     (if a = CHR ''2'' \<and> b = CHR ''0'' \<and> is_digit c \<and> is_digit d then Some [a, b, c, d]
      else search_20dd (b # c # d # rest))"
| "search_20dd _ = None"

definition extract_year :: "string \<Rightarrow> int option" where
  "extract_year text = map_option int_of_digits (search_20dd text)"

definition sd_patterns :: "string list" where
  "sd_patterns = [''s.d.'', ''s.d '', ''s/d'', ''sd.'', ''sampai dengan'', ''sampai'']"

definition is_sd_header :: "string \<Rightarrow> bool" where
  "is_sd_header text = (let text_lower = py_lower text in list_ex (\<lambda>pattern. py_in pattern text_lower) sd_patterns)"

subsection \<open>Worksheets\<close>

text \<open>
  A Python \<open>float\<close>: a finite value, an infinity or NaN. Finite values are exact
  rationals; the rounding of binary64 inside its range is not modelled, its range is.
\<close>

datatype pyfloat = Finite rat | PosInf | NegInf | NaN

text \<open>
  What \<open>cell.value\<close> can be in openpyxl: \<open>None\<close>, text, an integer, a float, a boolean, or a
  date or time object.
\<close>

datatype cell_value =
    CNone | CStr string | CInt int | CFloat pyfloat | CBool bool | CDateTime

record merged_range =
  min_row :: int
  min_col :: int
  max_row :: int
  max_col :: int

record sheet =
  merged_cells :: "merged_range list"
  cells :: "int \<Rightarrow> int \<Rightarrow> cell_value"
  max_column :: int

text \<open>\<open>sheet.cell(row, col).value\<close>; openpyxl raises \<open>ValueError\<close> for an index below 1.\<close>

definition sheet_cell :: "sheet \<Rightarrow> int \<Rightarrow> int \<Rightarrow> error + cell_value" where
  "sheet_cell sh row col =
     (if row < 1 \<or> col < 1 then Inl CellIndexError else Inr (cells sh row col))"

definition falsy :: "cell_value \<Rightarrow> bool" where
  "falsy v = (v = CNone \<or> v = CStr [] \<or> v = CInt 0 \<or> v = CFloat (Finite 0) \<or> v = CBool False)"

text \<open>
  \<open>str(cell.value or "")\<close>. The text of a string is the string itself. How Python prints
  a number, a boolean or a date is the parameter \<open>str_of\<close>: the formatting of floats and
  dates is not modelled, and no property below depends on it.
\<close>

definition cell_text :: "(cell_value \<Rightarrow> string) \<Rightarrow> cell_value \<Rightarrow> string" where
  "cell_text str_of v =
     (if falsy v then [] else case v of CStr s \<Rightarrow> s | _ \<Rightarrow> str_of v)"

definition PERIOD_HEADER_ROW :: int where "PERIOD_HEADER_ROW = 7"
definition TYPE_HEADER_ROW :: int where "TYPE_HEADER_ROW = 8"

subsection \<open>parse_period_header\<close>

text \<open>The dictionary appended for a period header; \<open>p_type\<close> is \<open>'s.d.'\<close> or \<open>'bulan'\<close>.\<close>

record period =
  p_type :: string
  p_text :: string
  start_col :: int
  end_col :: int
  month :: int
  year :: int
  is_sd :: bool

text \<open>
  The loop over \<open>sheet.merged_cells.ranges\<close>: ranges of other rows, empty texts and texts
  without a month or without a year are skipped; an error of \<open>sheet.cell\<close> ends the loop.
\<close>

fun collect_period_headers ::
  "(cell_value \<Rightarrow> string) \<Rightarrow> sheet \<Rightarrow> int \<Rightarrow> merged_range list \<Rightarrow> error + period list" where
  "collect_period_headers str_of sh row [] = Inr []"
| "collect_period_headers str_of sh row (mr # rest) =
     (if min_row mr = row then
        (case sheet_cell sh row (min_col mr) of
           Inl e \<Rightarrow> Inl e
         | Inr v \<Rightarrow>
            (let header_text = py_strip (cell_text str_of v) in
             if header_text = [] then collect_period_headers str_of sh row rest
             else
               (case (extract_month header_text, extract_year header_text) of
                  (Some m, Some y) \<Rightarrow>
                    (case collect_period_headers str_of sh row rest of
                       Inl e \<Rightarrow> Inl e
                     | Inr ps \<Rightarrow>
                        Inr (\<lparr> p_type = (if is_sd_header header_text then ''s.d.'' else ''bulan''),
                               p_text = header_text,
                               start_col = min_col mr, end_col = max_col mr,
                               month = m, year = y,
                               is_sd = is_sd_header header_text \<rparr> # ps))
                | _ \<Rightarrow> collect_period_headers str_of sh row rest)))
      else collect_period_headers str_of sh row rest)"

definition parse_period_header ::
  "(cell_value \<Rightarrow> string) \<Rightarrow> sheet \<Rightarrow> int \<Rightarrow> error + period list" where
  "parse_period_header str_of sh row =
     (case collect_period_headers str_of sh row (merged_cells sh) of
        Inl e \<Rightarrow> Inl e
      | Inr all_period_headers \<Rightarrow>
         (let sorted_headers = sort_key start_col all_period_headers in
          if sorted_headers = [] then Inl (NoPeriodHeaders row) else Inr sorted_headers))"

subsection \<open>parse_type_header\<close>

text \<open>
  The type mapping is a dictionary from column to \<open>'REAL'\<close> or \<open>'RKAP'\<close>, kept as an
  association list in insertion order (ascending columns); \<open>map_of\<close> is its \<open>.get\<close>.
\<close>

type_synonym type_headers = "(int \<times> string) list"

fun scan_type_headers ::
  "(cell_value \<Rightarrow> string) \<Rightarrow> sheet \<Rightarrow> int \<Rightarrow> int list \<Rightarrow> error + type_headers" where
  "scan_type_headers str_of sh row [] = Inr []"
| "scan_type_headers str_of sh row (col # rest) =
     (case sheet_cell sh row col of
        Inl e \<Rightarrow> Inl e
      | Inr v \<Rightarrow>
         (let header_text = py_upper (py_strip (cell_text str_of v)) in
          case scan_type_headers str_of sh row rest of
            Inl e \<Rightarrow> Inl e
          | Inr tm \<Rightarrow>
             if header_text = [] then Inr tm
             else if py_in ''REAL'' header_text then Inr ((col, ''REAL'') # tm)
             else if py_in ''RKAP'' header_text then Inr ((col, ''RKAP'') # tm)
             else Inr tm))"

definition parse_type_header ::
  "(cell_value \<Rightarrow> string) \<Rightarrow> sheet \<Rightarrow> int \<Rightarrow> error + type_headers" where
  "parse_type_header str_of sh row =
     (case scan_type_headers str_of sh row [1 .. max_column sh] of
        Inl e \<Rightarrow> Inl e
      | Inr type_mapping \<Rightarrow>
         if type_mapping = [] then Inl (NoTypeHeaders row) else Inr type_mapping)"

subsection \<open>get_cell_value\<close>

text \<open>
  \<open>float(n)\<close> for an integer raises \<open>OverflowError\<close> when \<open>n\<close> rounds to a magnitude of
  \<open>2 ^ 1024\<close> or more, that is from \<open>2 ^ 1024 - 2 ^ 970\<close> on; a decimal text of such a
  magnitude parses to an infinity instead.
\<close>

definition double_limit :: int where
  "double_limit = 2 ^ 1024 - 2 ^ 970"

definition float_of_int :: "int \<Rightarrow> error + pyfloat" where
  "float_of_int n =
     (if double_limit \<le> \<bar>n\<bar> then Inl OverflowError else Inr (Finite (of_int n)))"

definition to_double :: "rat \<Rightarrow> pyfloat" where
  "to_double q =
     (if of_int double_limit \<le> q then PosInf
      else if q \<le> - of_int double_limit then NegInf
      else Finite q)"

text \<open>
  \<open>float(s)\<close> for text. Surrounding whitespace is dropped; an underscore must stand
  between two digits and is then dropped; what remains is an optional sign followed by
  \<open>inf\<close>, \<open>infinity\<close> or \<open>nan\<close> in any case, or by a decimal number: digits with an
  optional point (at least one digit before or after it) and an optional exponent
  \<open>e\<close> or \<open>E\<close>, optional sign, digits.
\<close>

fun underscores_ok :: "char \<Rightarrow> string \<Rightarrow> bool" where
  "underscores_ok prev [] = (prev \<noteq> CHR ''_'')"
| "underscores_ok prev (c # cs) =
     (if c = CHR ''_'' then is_digit prev \<and> underscores_ok c cs
      else (prev = CHR ''_'' \<longrightarrow> is_digit c) \<and> underscores_ok c cs)"

definition split_sign :: "string \<Rightarrow> bool \<times> string" where
  "split_sign s =
     (case s of
        c # cs \<Rightarrow> if c = CHR ''-'' then (True, cs) else if c = CHR ''+'' then (False, cs)
                  else (False, s)
      | [] \<Rightarrow> (False, s))"

definition parse_exponent :: "string \<Rightarrow> int option" where
  "parse_exponent s =
     (case s of
        [] \<Rightarrow> Some 0
      | c # cs \<Rightarrow>
         if c = CHR ''e'' \<or> c = CHR ''E'' then
           (let (neg, ds) = split_sign cs in
            if ds \<noteq> [] \<and> list_all is_digit ds
            then Some (if neg then - int_of_digits ds else int_of_digits ds)
            else None)
         else None)"

definition parse_decimal :: "string \<Rightarrow> rat option" where
  "parse_decimal s =
     (let int_part = takeWhile is_digit s;
          r1 = dropWhile is_digit s;
          has_point = (r1 \<noteq> [] \<and> hd r1 = CHR ''.'');
          frac_part = (if has_point then takeWhile is_digit (tl r1) else []);
          r2 = (if has_point then dropWhile is_digit (tl r1) else r1)
      in if int_part = [] \<and> frac_part = [] then None
         else case parse_exponent r2 of
                None \<Rightarrow> None
              | Some e \<Rightarrow>
                 Some (of_int (int_of_digits (int_part @ frac_part))
                         * 10 powi (e - int (length frac_part))))"

definition float_of_str :: "string \<Rightarrow> error + pyfloat" where
  "float_of_str s =
     (let t = py_strip s in
      if \<not> underscores_ok CHR ''.'' t then Inl FloatValueError
      else
        (let (neg, body) = split_sign (remove_char CHR ''_'' t) in
         if py_lower body = ''inf'' \<or> py_lower body = ''infinity''
         then Inr (if neg then NegInf else PosInf)
         else if py_lower body = ''nan'' then Inr NaN
         else case parse_decimal body of
                None \<Rightarrow> Inl FloatValueError
              | Some q \<Rightarrow> Inr (to_double (if neg then - q else q))))"

text \<open>\<open>float(value)\<close> on a cell value that is not \<open>None\<close>.\<close>

definition py_float :: "cell_value \<Rightarrow> error + pyfloat" where
  "py_float v =
     (case v of
        CStr s \<Rightarrow> float_of_str s
      | CInt n \<Rightarrow> float_of_int n
      | CFloat f \<Rightarrow> Inr f
      | CBool b \<Rightarrow> Inr (Finite (if b then 1 else 0))
      | CDateTime \<Rightarrow> Inl FloatTypeError
      | CNone \<Rightarrow> Inl FloatTypeError)"

text \<open>
  \<open>get_cell_value\<close> returns the amount and the warnings it logged (the row and column of
  each). \<open>ValueError\<close> and \<open>TypeError\<close> raised inside the \<open>try\<close> block are caught; nothing
  in the block raises \<open>AttributeError\<close>; any other exception propagates.
\<close>

definition caught :: "error \<Rightarrow> bool" where
  "caught e = (e = CellIndexError \<or> e = FloatValueError \<or> e = FloatTypeError)"

definition get_cell_value :: "sheet \<Rightarrow> int \<Rightarrow> int \<Rightarrow> error + (pyfloat \<times> (int \<times> int) list)" where
  "get_cell_value sh row col =
     (let attempt =
        (case sheet_cell sh row col of
           Inl e \<Rightarrow> Inl e
         | Inr v \<Rightarrow>
            if v = CNone then Inr (Finite 0)
            else
              (case v of
                 CStr s \<Rightarrow>
                   (let cleaned = py_strip (remove_char CHR '' '' (remove_char CHR '','' s)) in
                    if cleaned = [] \<or> cleaned = ''-'' then Inr (Finite 0)
                    else py_float (CStr cleaned))
               | _ \<Rightarrow> py_float v))
      in case attempt of
           Inr x \<Rightarrow> Inr (x, [])
         | Inl e \<Rightarrow> if caught e then Inr (Finite 0, [(row, col)]) else Inl e)"

section \<open>modules/cost/column_detector.py\<close>

text \<open>
  The \<open>columns\<close> dictionary has the four keys \<open>REAL_BULAN_INI\<close>, \<open>RKAP_BULAN_INI\<close>,
  \<open>REAL_SD\<close> and \<open>RKAP_SD\<close>; a value is a column or \<open>None\<close>.
\<close>

record columns =
  REAL_BULAN_INI :: "int option"
  RKAP_BULAN_INI :: "int option"
  REAL_SD :: "int option"
  RKAP_SD :: "int option"

text \<open>
  \<open>_get_columns_in_range\<close>: every column of the range whose type name is truthy is
  stored under its type name, a later column overwriting an earlier one.
\<close>

definition range_step :: "type_headers \<Rightarrow> int \<Rightarrow> (string \<rightharpoonup> int) \<Rightarrow> (string \<rightharpoonup> int)" where
  "range_step th col cols =
     (case map_of th col of
        None \<Rightarrow> cols
      | Some type_name \<Rightarrow> if type_name \<noteq> [] then cols(type_name \<mapsto> col) else cols)"

definition get_columns_in_range :: "type_headers \<Rightarrow> int \<Rightarrow> int \<Rightarrow> (string \<rightharpoonup> int)" where
  "get_columns_in_range th start_c end_c = fold (range_step th) [start_c .. end_c] Map.empty"

text \<open>Truthiness of \<open>next_real\<close> and \<open>next_rkap\<close>: \<open>None\<close> and 0 are false.\<close>

definition truthy :: "int option \<Rightarrow> bool" where
  "truthy x = (case x of None \<Rightarrow> False | Some c \<Rightarrow> c \<noteq> 0)"

text \<open>The fallback loop of \<open>_map_columns\<close> with its \<open>break\<close>.\<close>

fun fallback_scan ::
  "type_headers \<Rightarrow> int list \<Rightarrow> int option \<times> int option \<Rightarrow> int option \<times> int option" where
  "fallback_scan th [] (next_real, next_rkap) = (next_real, next_rkap)"
| "fallback_scan th (col # rest) (next_real, next_rkap) =
     (let type_name = map_of th col;
          (next_real', next_rkap') =
             (if type_name = Some ''REAL'' \<and> next_real = None then (Some col, next_rkap)
              else if type_name = Some ''RKAP'' \<and> next_rkap = None then (next_real, Some col)
              else (next_real, next_rkap))
      in if truthy next_real' \<and> truthy next_rkap' then (next_real', next_rkap')
         else fallback_scan th rest (next_real', next_rkap'))"

text \<open>\<open>max(self.type_headers.keys())\<close> raises \<open>ValueError\<close> on an empty dictionary.\<close>

definition max_key :: "type_headers \<Rightarrow> error + int" where
  "max_key th = (case map fst th of [] \<Rightarrow> Inl MaxOfEmpty | k # ks \<Rightarrow> Inr (fold max ks k))"

definition map_columns :: "period \<Rightarrow> period option \<Rightarrow> type_headers \<Rightarrow> error + columns" where
  "map_columns bulan_header sd_header th =
     (let bulan_cols = get_columns_in_range th (start_col bulan_header) (end_col bulan_header);
          cols = \<lparr> REAL_BULAN_INI = bulan_cols ''REAL'', RKAP_BULAN_INI = bulan_cols ''RKAP'',
                   REAL_SD = None, RKAP_SD = None \<rparr>
      in case sd_header of
           Some sd \<Rightarrow>
             (let sd_cols = get_columns_in_range th (start_col sd) (end_col sd)
              in Inr (cols\<lparr> REAL_SD := sd_cols ''REAL'', RKAP_SD := sd_cols ''RKAP'' \<rparr>))
         | None \<Rightarrow>
             (case max_key th of
                Inl e \<Rightarrow> Inl e
              | Inr mk \<Rightarrow>
                 (let (next_real, next_rkap) =
                        fallback_scan th [end_col bulan_header + 1 .. mk] (None, None)
                  in Inr (cols\<lparr> REAL_SD := next_real, RKAP_SD := next_rkap \<rparr>))))"

definition validate_columns :: "columns \<Rightarrow> error + unit" where
  "validate_columns cols =
     (let missing = map fst (filter (\<lambda>(k, v). v = None)
            [(''REAL_BULAN_INI'', REAL_BULAN_INI cols), (''RKAP_BULAN_INI'', RKAP_BULAN_INI cols),
             (''REAL_SD'', REAL_SD cols), (''RKAP_SD'', RKAP_SD cols)])
      in if missing \<noteq> [] then Inl (ColumnsNotDetected missing) else Inr ())"

text \<open>
  Steps 3 and 4 of \<open>detect_columns\<close>: the loop keeps the first matching \<open>bulan\<close> header
  and the first matching \<open>s.d.\<close> header; without a \<open>bulan\<close> match the error lists the
  year and month of every \<open>bulan\<close> header.
\<close>

fun find_matching ::
  "period list \<Rightarrow> int \<Rightarrow> int \<Rightarrow> period option \<times> period option \<Rightarrow> period option \<times> period option" where
  "find_matching [] target_year target_month acc = acc"
| "find_matching (p # ps) target_year target_month (matching_bulan, matching_sd) =
     find_matching ps target_year target_month
       (if year p = target_year \<and> month p = target_month then
          (if p_type p = ''bulan'' \<and> matching_bulan = None then (Some p, matching_sd)
           else if p_type p = ''s.d.'' \<and> matching_sd = None then (matching_bulan, Some p)
           else (matching_bulan, matching_sd))
        else (matching_bulan, matching_sd))"

definition match_periods :: "period list \<Rightarrow> int \<Rightarrow> int \<Rightarrow> error + (period \<times> period option)" where
  "match_periods all_periods target_year target_month =
     (case find_matching all_periods target_year target_month (None, None) of
        (None, _) \<Rightarrow>
          Inl (PeriodNotFound target_year target_month
                 (map (\<lambda>p. (year p, month p)) (filter (\<lambda>p. p_type p = ''bulan'') all_periods)))
      | (Some matching_bulan, matching_sd) \<Rightarrow> Inr (matching_bulan, matching_sd))"

text \<open>Steps 5 and 6: map the columns of the matched headers and validate them.\<close>

definition map_and_validate :: "period \<Rightarrow> period option \<Rightarrow> type_headers \<Rightarrow> error + columns" where
  "map_and_validate bulan_header sd_header th =
     (case map_columns bulan_header sd_header th of
        Inl e \<Rightarrow> Inl e
      | Inr cols \<Rightarrow> (case validate_columns cols of Inl e \<Rightarrow> Inl e | Inr _ \<Rightarrow> Inr cols))"

text \<open>
  \<open>detect_columns\<close> from the parsed target period on (\<open>_parse_period\<close>, a call of
  \<open>datetime.strptime\<close>, is not modelled). Any exception of the two header parsers is
  raised again as one \<open>ValueError\<close>. Step 7 prints the validated columns and changes
  nothing.
\<close>

definition parse_headers ::
  "(cell_value \<Rightarrow> string) \<Rightarrow> sheet \<Rightarrow> error + (period list \<times> type_headers)" where
  "parse_headers str_of sh =
     (case parse_period_header str_of sh PERIOD_HEADER_ROW of
        Inl e \<Rightarrow> Inl (HeaderParseFailed e)
      | Inr all_periods \<Rightarrow>
         (case parse_type_header str_of sh TYPE_HEADER_ROW of
            Inl e \<Rightarrow> Inl (HeaderParseFailed e)
          | Inr th \<Rightarrow> Inr (all_periods, th)))"

definition detect_columns ::
  "(cell_value \<Rightarrow> string) \<Rightarrow> sheet \<Rightarrow> int \<Rightarrow> int \<Rightarrow> error + columns" where
  "detect_columns str_of sh target_year target_month =
     (case parse_headers str_of sh of
        Inl e \<Rightarrow> Inl e
      | Inr (all_periods, th) \<Rightarrow>
         (case match_periods all_periods target_year target_month of
            Inl e \<Rightarrow> Inl e
          | Inr (matching_bulan, matching_sd) \<Rightarrow> map_and_validate matching_bulan matching_sd th))"

subsection \<open>A sample worksheet\<close>

text \<open>
  A worksheet with one merged period header at row 7 over columns 5 to 6 holding the text
  \<open>h\<close>, and at row 8 the label \<open>a\<close> at columns 5 and 9 and the label \<open>b\<close> at columns 6 and
  10; every other cell, columns 7 and 8 of row 8 among them, is empty.
\<close>

definition sample_sheet :: "string \<Rightarrow> string \<Rightarrow> string \<Rightarrow> sheet" where
  "sample_sheet h a b =
     \<lparr> merged_cells = [\<lparr> min_row = 7, min_col = 5, max_row = 7, max_col = 6 \<rparr>],
       cells = (\<lambda>r c. if r = 7 \<and> c = 5 then CStr h
                       else if r = 8 \<and> (c = 5 \<or> c = 9) then CStr a
                       else if r = 8 \<and> (c = 6 \<or> c = 10) then CStr b
                       else CNone),
       max_column = 10 \<rparr>"

text \<open>
  A rendering of non-text cell values for worksheets whose header cells are text or
  empty, where it is never applied.
\<close>

definition plain_str :: "cell_value \<Rightarrow> string" where
  "plain_str v = []"

definition sample_cell :: "cell_value \<Rightarrow> sheet" where
  "sample_cell v = \<lparr> merged_cells = [], cells = (\<lambda>r c. v), max_column = 1 \<rparr>"

definition sample_period :: "string \<Rightarrow> int \<Rightarrow> int \<Rightarrow> int \<Rightarrow> int \<Rightarrow> period" where
  "sample_period t y m c1 c2 =
     \<lparr> p_type = t, p_text = [], start_col = c1, end_col = c2, month = m, year = y,
       is_sd = (t = ''s.d.'') \<rparr>"

section \<open>The header parser and the column mapper as the specification words them\<close>


text \<open>The text has \<open>20\<close> followed by two digits at offset \<open>i\<close>.\<close>

definition year_at :: "nat \<Rightarrow> string \<Rightarrow> bool" where
  "year_at i s =
     (i + 4 \<le> length s \<and> s ! i = CHR ''2'' \<and> s ! (i + 1) = CHR ''0''
      \<and> is_digit (s ! (i + 2)) \<and> is_digit (s ! (i + 3)))"

text \<open>The first column from \<open>c1\<close> to \<open>c2\<close> that the type map classifies as \<open>t\<close>.\<close>

definition first_typed :: "type_headers \<Rightarrow> string \<Rightarrow> int \<Rightarrow> int \<Rightarrow> int option" where
  "first_typed th t c1 c2 = find (\<lambda>c. map_of th c = Some t) [c1 .. c2]"

text \<open>The names of the logical columns that are unresolved, in the order of the four.\<close>

definition unresolved :: "columns \<Rightarrow> string list" where
  "unresolved cols =
     (if REAL_BULAN_INI cols = None then [''REAL_BULAN_INI''] else [])
     @ (if RKAP_BULAN_INI cols = None then [''RKAP_BULAN_INI''] else [])
     @ (if REAL_SD cols = None then [''REAL_SD''] else [])
     @ (if RKAP_SD cols = None then [''RKAP_SD''] else [])"

section \<open>Properties of the validator\<close>

lemma determine_status_cases:
  "determine_status c = ''failed'' \<longleftrightarrow> c < 90"
  "determine_status c = ''warning'' \<longleftrightarrow> 90 \<le> c \<and> c < 100"
  "determine_status c = ''success'' \<longleftrightarrow> 100 \<le> c"
  by (auto simp: determine_status_def)

lemma build_mappings_fst:
  "fst (build_mappings config (m, n)) = m ++ code_owner config"
proof (induction config arbitrary: m n)
  case Nil
  then show ?case by (simp add: code_owner_def)
next
  case (Cons e config)
  obtain k cd where e: "e = (k, cd)" by (cases e)
  show ?case
    by (auto simp: e Cons.IH code_owner_def map_add_def fun_eq_iff split: option.splits)
qed

lemma present_units_iff:
  "k \<in> present_units config df \<longleftrightarrow>
     k \<noteq> [] \<and> (\<exists>code \<in> batch_codes df. code_owner config code = Some k)"
  by (auto simp: present_units_def Option.these_def image_iff)

lemma code_owner_key:
  "code_owner config c = Some k \<Longrightarrow> k \<in> fst ` set config"
  by (force simp: code_owner_def dest!: map_of_SomeD)

lemma present_units_config_keys: "present_units config df \<subseteq> fst ` set config"
  using code_owner_key by (auto simp: present_units_iff)

lemma set_map_filter_conv:
  "set (List.map_filter f xs) = {y. \<exists>x \<in> set xs. f x = Some y}"
proof (induction xs)
  case Nil
  show ?case by (simp add: List.map_filter_simps)
next
  case (Cons a xs)
  show ?case
  proof (cases "f a")
    case None
    then show ?thesis using Cons.IH by (auto simp: List.map_filter_simps)
  next
    case (Some b)
    then show ?thesis using Cons.IH by (auto simp: List.map_filter_simps)
  qed
qed

lemma set_processed_config_keys:
  "set (processed_config_keys m codes) = {k. k \<noteq> [] \<and> (\<exists>c \<in> set codes. m c = Some k)}"
proof -
  let ?f = "\<lambda>data_code. case m data_code of None \<Rightarrow> None
              | Some config_key \<Rightarrow> if config_key \<noteq> [] then Some config_key else None"
  have "\<And>c k. ?f c = Some k \<longleftrightarrow> (k \<noteq> [] \<and> m c = Some k)"
    by (auto split: option.splits)
  then show ?thesis
    unfolding processed_config_keys_def set_remdups set_map_filter_conv by simp
qed

lemma set_processed_data_codes: "set (processed_data_codes df) = batch_codes df"
  by (simp add: processed_data_codes_def batch_codes_def)

text \<open>
  What \<open>validate_company_coverage\<close> returns, in terms of sets: the count is the number
  of present units (not intersected with the expected list), the missing list is the
  sorted difference.
\<close>

lemma validate_company_coverage_sets:
  "validate_company_coverage config df expected =
     (card (present_units config df),
      sorted_list_of_set (set expected - present_units config df),
      snd (build_mappings config (Map.empty, Map.empty)))"
proof -
  obtain m n where mn: "build_mappings config (Map.empty, Map.empty) = (m, n)"
    by (cases "build_mappings config (Map.empty, Map.empty)")
  have m: "m = code_owner config"
    using build_mappings_fst [of config Map.empty Map.empty] by (simp add: mn)
  let ?keys = "processed_config_keys m (processed_data_codes df)"
  have keys: "set ?keys = present_units config df"
    by (auto simp: set_processed_config_keys set_processed_data_codes present_units_iff m)
  have dk: "distinct ?keys" by (simp add: processed_config_keys_def)
  have len: "length ?keys = card (present_units config df)"
    using distinct_card [OF dk] keys by simp
  have "sort (filter (\<lambda>k. k \<notin> set ?keys) (remdups expected))
        = sort (remdups (filter (\<lambda>k. k \<notin> set ?keys) expected))"
    by (simp add: remdups_filter)
  also have "\<dots> = sorted_list_of_set (set (filter (\<lambda>k. k \<notin> set ?keys) expected))"
    by (simp only: sorted_list_of_set_sort_remdups)
  also have "set (filter (\<lambda>k. k \<notin> set ?keys) expected) = set expected - present_units config df"
    using keys by auto
  finally have miss: "sort (filter (\<lambda>k. k \<notin> set ?keys) (remdups expected))
        = sorted_list_of_set (set expected - present_units config df)" .
  show ?thesis
    by (simp add: validate_company_coverage_def mn Let_def len miss)
qed

lemma validate_upload_fields:
  "total_companies (validate_upload config df expected) = length expected"
  "processed_companies (validate_upload config df expected) = card (present_units config df)"
  "missing_companies (validate_upload config df expected) =
     sorted_list_of_set (set expected - present_units config df)"
  "company_coverage_percent (validate_upload config df expected) =
     (if expected = [] then 0
      else of_nat (card (present_units config df)) / of_nat (length expected) * 100)"
  "status (validate_upload config df expected) =
     determine_status (company_coverage_percent (validate_upload config df expected))"
  by (simp_all add: validate_upload_def validate_company_coverage_sets ValidationResult_init_def
        Let_def)

text \<open>
  C1 (as amended). When every unit present in the batch belongs to the expected list
  (as it does when the expected list is the key list of the configuration, which is
  what the upload route passes) and the expected list has no duplicates, the validator
  computes the matched count as the size of the intersection of the expected set with
  the present units, the missing list as the ascending difference, and the coverage as
  matched count over the size of the expected set times 100 (0 when it is empty); the
  matched count is then at most the size of the expected set and the coverage at most 100.
\<close>

theorem validate_upload_coverage:
  assumes "present_units config df \<subseteq> set expected" and "distinct expected"
  shows "processed_companies (validate_upload config df expected)
           = card (set expected \<inter> present_units config df)
       \<and> missing_companies (validate_upload config df expected)
           = sorted_list_of_set (set expected - present_units config df)
       \<and> company_coverage_percent (validate_upload config df expected)
           = (if set expected = {} then 0
              else of_nat (processed_companies (validate_upload config df expected))
                     / of_nat (card (set expected)) * 100)
       \<and> processed_companies (validate_upload config df expected) \<le> card (set expected)
       \<and> company_coverage_percent (validate_upload config df expected) \<le> 100"
proof -
  let ?P = "present_units config df"
  have inter: "set expected \<inter> ?P = ?P" using assms(1) by blast
  have len: "length expected = card (set expected)"
    using assms(2) by (simp add: distinct_card)
  have le: "card ?P \<le> card (set expected)"
    using assms(1) by (simp add: card_mono)
  have cov: "company_coverage_percent (validate_upload config df expected) \<le> 100"
  proof (cases "expected = []")
    case True
    then show ?thesis by (simp add: validate_upload_fields)
  next
    case False
    then have pos: "0 < card (set expected)" by (simp add: card_gt_0_iff)
    have "(of_nat (card ?P) :: rat) \<le> of_nat (card (set expected))"
      using le by simp
    then have "(of_nat (card ?P) :: rat) / of_nat (card (set expected)) \<le> 1"
      using pos by (simp add: divide_le_eq_1)
    then have "(of_nat (card ?P) :: rat) / of_nat (card (set expected)) * 100 \<le> 1 * 100"
      by (rule mult_right_mono) simp
    then show ?thesis using False by (simp add: validate_upload_fields len)
  qed
  show ?thesis
    using cov le by (simp add: validate_upload_fields inter len)
qed

theorem validate_upload_coverage_witness:
  "present_units config10 (frame_of [''a'', ''b'', ''c'', ''d'', ''e'', ''f'', ''g'', ''h'', ''i'', ''a''])
      \<subseteq> set expected10
   \<and> distinct expected10
   \<and> processed_companies (validate_upload config10
        (frame_of [''a'', ''b'', ''c'', ''d'', ''e'', ''f'', ''g'', ''h'', ''i'', ''a'']) expected10) = 9
   \<and> missing_companies (validate_upload config10
        (frame_of [''a'', ''b'', ''c'', ''d'', ''e'', ''f'', ''g'', ''h'', ''i'', ''a'']) expected10) = [''J'']
   \<and> company_coverage_percent (validate_upload config10
        (frame_of [''a'', ''b'', ''c'', ''d'', ''e'', ''f'', ''g'', ''h'', ''i'', ''a'']) expected10) = 90"
proof -
  let ?df = "frame_of [''a'', ''b'', ''c'', ''d'', ''e'', ''f'', ''g'', ''h'', ''i'', ''a'']"
  have h1: "present_units config10 ?df \<subseteq> set expected10" by code_simp
  have h2: "distinct expected10" by code_simp
  have c1: "card (set expected10 \<inter> present_units config10 ?df) = 9" by code_simp
  have c2: "sorted_list_of_set (set expected10 - present_units config10 ?df) = [''J'']"
    by code_simp
  have c3: "card (set expected10) = 10" by code_simp
  have c4: "set expected10 \<noteq> {}" by code_simp
  show ?thesis
    using validate_upload_coverage [OF h1 h2] h1 h2 c1 c2 c3 c4 by simp
qed

text \<open>
  C1 as stated fails: with the ten-company configuration, a batch holding the codes of
  \<open>A\<close> and \<open>B\<close> and the expected list \<open>[A]\<close>, the matched count is 2 although the
  intersection of the expected set with the present units has one element, and the
  coverage is 200.
\<close>

theorem validate_upload_count_counterexample:
  "processed_companies (validate_upload config10 (frame_of [''a'', ''b'']) [''A''])
      \<noteq> card (set [''A''] \<inter> present_units config10 (frame_of [''a'', ''b'']))
   \<and> \<not> processed_companies (validate_upload config10 (frame_of [''a'', ''b'']) [''A''])
        \<le> card (set [''A''])
   \<and> \<not> company_coverage_percent (validate_upload config10 (frame_of [''a'', ''b'']) [''A''])
        \<le> 100"
  by code_simp

text \<open>
  The total is the length of the expected list, so a duplicate in it lowers the coverage:
  the expected list \<open>[A, A]\<close> with \<open>A\<close> present gives 50.
\<close>

lemma validate_upload_duplicate_expected:
  "company_coverage_percent (validate_upload config10 (frame_of [''a'']) [''A'', ''A'']) = 50"
  by code_simp

text \<open>
  C3 (as amended). The status is \<open>failed\<close> (Rejected) when the coverage is below 90,
  \<open>warning\<close> (Degraded) when it is at least 90 and below 100, and \<open>success\<close> (Accepted)
  exactly when it is at least 100. Nine of ten expected units give coverage 90 and
  \<open>warning\<close>, ten of ten give \<open>success\<close>, eight of ten give \<open>failed\<close>.
\<close>

theorem determine_status_policy:
  "(c < 90 \<longrightarrow> determine_status c = ''failed'')
   \<and> (90 \<le> c \<and> c < 100 \<longrightarrow> determine_status c = ''warning'')
   \<and> (determine_status c = ''success'' \<longleftrightarrow> 100 \<le> c)
   \<and> company_coverage_percent (validate_upload config10
         (frame_of [''a'', ''b'', ''c'', ''d'', ''e'', ''f'', ''g'', ''h'', ''i'']) expected10) = 90
   \<and> status (validate_upload config10
         (frame_of [''a'', ''b'', ''c'', ''d'', ''e'', ''f'', ''g'', ''h'', ''i'']) expected10) = ''warning''
   \<and> status (validate_upload config10
         (frame_of [''a'', ''b'', ''c'', ''d'', ''e'', ''f'', ''g'', ''h'', ''i'', ''j'']) expected10) = ''success''
   \<and> company_coverage_percent (validate_upload config10
         (frame_of [''a'', ''b'', ''c'', ''d'', ''e'', ''f'', ''g'', ''h'']) expected10) = 80
   \<and> status (validate_upload config10
         (frame_of [''a'', ''b'', ''c'', ''d'', ''e'', ''f'', ''g'', ''h'']) expected10) = ''failed''"
proof -
  have general: "(c < 90 \<longrightarrow> determine_status c = ''failed'')
      \<and> (90 \<le> c \<and> c < 100 \<longrightarrow> determine_status c = ''warning'')
      \<and> (determine_status c = ''success'' \<longleftrightarrow> 100 \<le> c)"
    by (auto simp: determine_status_def)
  have nine: "company_coverage_percent (validate_upload config10
         (frame_of [''a'', ''b'', ''c'', ''d'', ''e'', ''f'', ''g'', ''h'', ''i'']) expected10) = 90
     \<and> status (validate_upload config10
         (frame_of [''a'', ''b'', ''c'', ''d'', ''e'', ''f'', ''g'', ''h'', ''i'']) expected10) = ''warning''"
    by code_simp
  have ten: "status (validate_upload config10
         (frame_of [''a'', ''b'', ''c'', ''d'', ''e'', ''f'', ''g'', ''h'', ''i'', ''j'']) expected10) = ''success''"
    by code_simp
  have eight: "company_coverage_percent (validate_upload config10
         (frame_of [''a'', ''b'', ''c'', ''d'', ''e'', ''f'', ''g'', ''h'']) expected10) = 80
     \<and> status (validate_upload config10
         (frame_of [''a'', ''b'', ''c'', ''d'', ''e'', ''f'', ''g'', ''h'']) expected10) = ''failed''"
    by code_simp
  show ?thesis using general nine ten eight by blast
qed

theorem determine_status_policy_witness:
  "(80::rat) < 90 \<and> determine_status 80 = ''failed''
   \<and> (90::rat) \<le> 95 \<and> (95::rat) < 100 \<and> determine_status 95 = ''warning''
   \<and> (100::rat) \<le> 150 \<and> determine_status 150 = ''success''"
  using determine_status_policy [of 80] determine_status_policy [of 95]
    determine_status_policy [of 150]
  by simp

text \<open>
  C3 as stated fails: \<open>success\<close> is not returned exactly when the coverage equals 100.
  With the expected list \<open>[A, B]\<close> and a batch holding the codes of \<open>A\<close>, \<open>B\<close> and
  \<open>C\<close>, the computed coverage is 150 and the status is \<open>success\<close>.
\<close>

theorem determine_status_exact_counterexample:
  "\<not> (status (validate_upload config10 (frame_of [''a'', ''b'', ''c'']) [''A'', ''B'']) = ''success''
       \<longleftrightarrow> company_coverage_percent
             (validate_upload config10 (frame_of [''a'', ''b'', ''c'']) [''A'', ''B'']) = 100)"
  by code_simp

text \<open>
  C9. With an empty expected list, \<open>validate_upload\<close> returns total_companies 0,
  coverage 0 and status \<open>failed\<close>, never \<open>success\<close>, whatever the configuration and the
  batch are.
\<close>

theorem validate_upload_empty_expected:
  "total_companies (validate_upload config df []) = 0
   \<and> company_coverage_percent (validate_upload config df []) = 0
   \<and> status (validate_upload config df []) = ''failed''
   \<and> status (validate_upload config df []) \<noteq> ''success''"
  by (simp add: validate_upload_fields determine_status_def)

theorem validate_upload_empty_expected_witness:
  "status (validate_upload config10 (frame_of [''a'', ''b'']) []) = ''failed''
   \<and> company_coverage_percent (validate_upload config10 (frame_of [''a'', ''b'']) []) = 0"
  using validate_upload_empty_expected [of config10 "frame_of [''a'', ''b'']"] by simp

section \<open>Properties of the worksheet reader\<close>

text \<open>
  C2 (as amended). For a worksheet whose period header row has a merged header
  \<open>Desember 2024\<close> over columns 5 to 6, whose value-type row reads \<open>REAL\<close> at column 5
  and \<open>RKAP\<close> at column 6, with no cumulative header, unclassified columns 7 and 8, and
  \<open>REAL\<close> and \<open>RKAP\<close> at columns 9 and 10, the target period (2024, 12) yields the
  mapping REAL_BULAN_INI = 5, RKAP_BULAN_INI = 6, REAL_SD = 9, RKAP_SD = 10.
\<close>

theorem detect_columns_scenario:
  "detect_columns str_of (sample_sheet ''Desember 2024'' ''REAL'' ''RKAP'') 2024 12
     = Inr \<lparr> REAL_BULAN_INI = Some 5, RKAP_BULAN_INI = Some 6,
             REAL_SD = Some 9, RKAP_SD = Some 10 \<rparr>"
  by code_simp

text \<open>
  C2 as stated fails: with the header text \<open>December 2024\<close> and the labels \<open>ACTUAL\<close> and
  \<open>BUDGET\<close> no month key of \<open>MONTH_MAP\<close> occurs in the header, no period header is found
  and the detection ends with the header parse error instead of a mapping.
\<close>

theorem detect_columns_english_counterexample:
  "detect_columns plain_str (sample_sheet ''December 2024'' ''ACTUAL'' ''BUDGET'') 2024 12
     = Inl (HeaderParseFailed (NoPeriodHeaders 7))"
  by code_simp

lemma float_of_str_error: "float_of_str s = Inl e \<Longrightarrow> e = FloatValueError"
  by (auto simp: float_of_str_def Let_def split: prod.splits option.splits if_splits)

text \<open>
  The coercion returns for every cell that is not an integer beyond the double range.
\<close>

lemma get_cell_value_returns:
  assumes "\<forall>n. cells sh row col = CInt n \<longrightarrow> \<bar>n\<bar> < double_limit"
  shows "\<exists>x w. get_cell_value sh row col = Inr (x, w)"
proof (cases "row < 1 \<or> col < 1")
  case True
  then show ?thesis by (simp add: get_cell_value_def sheet_cell_def caught_def)
next
  case False
  show ?thesis
  proof (cases "cells sh row col")
    case (CStr s)
    let ?c = "py_strip (remove_char CHR '' '' (remove_char CHR '','' s))"
    show ?thesis
    proof (cases "float_of_str ?c")
      case (Inl e)
      then have "e = FloatValueError" by (rule float_of_str_error)
      then show ?thesis using False CStr Inl
        by (simp add: get_cell_value_def sheet_cell_def caught_def py_float_def Let_def)
    next
      case (Inr x)
      then show ?thesis using False CStr
        by (simp add: get_cell_value_def sheet_cell_def caught_def py_float_def Let_def)
    qed
  next
    case (CInt n)
    then have "\<bar>n\<bar> < double_limit" using assms by simp
    then show ?thesis using False CInt
      by (simp add: get_cell_value_def sheet_cell_def py_float_def float_of_int_def)
  qed (use False in \<open>simp_all add: get_cell_value_def sheet_cell_def caught_def py_float_def\<close>)
qed

text \<open>The values of the coercion on the cells the specification lists.\<close>

lemma get_cell_value_none: "get_cell_value (sample_cell CNone) 1 1 = Inr (Finite 0, [])"
  by code_simp

lemma get_cell_value_empty: "get_cell_value (sample_cell (CStr [])) 1 1 = Inr (Finite 0, [])"
  by code_simp

lemma get_cell_value_dash: "get_cell_value (sample_cell (CStr ''-'')) 1 1 = Inr (Finite 0, [])"
  by code_simp

lemma get_cell_value_thousands:
  "get_cell_value (sample_cell (CStr ''1,234.50'')) 1 1 = Inr (Finite (12345 / 10), [])"
  by code_simp

lemma get_cell_value_abc:
  "get_cell_value (sample_cell (CStr ''abc'')) 1 1 = Inr (Finite 0, [(1, 1)])"
  by code_simp

text \<open>
  C4. The claim that no exception propagates from the coercion fails for an integer cell
  beyond the double range: \<open>float\<close> raises \<open>OverflowError\<close>, which the \<open>except\<close> clause of
  \<open>get_cell_value\<close> does not list.
\<close>

theorem get_cell_value_overflow:
  "get_cell_value (sample_cell (CInt (10 ^ 400))) 1 1 = Inl OverflowError"
  by code_simp

section \<open>Properties of the column detector\<close>

lemma find_matching_fst:
  "fst (find_matching ps ty tm (mb, ms)) =
     (case mb of Some b \<Rightarrow> Some b
      | None \<Rightarrow> find (\<lambda>p. year p = ty \<and> month p = tm \<and> p_type p = ''bulan'') ps)"
  by (induction ps arbitrary: mb ms) (auto split: option.splits)

lemma match_periods_eq:
  "match_periods ps ty tm =
     (case find (\<lambda>p. year p = ty \<and> month p = tm \<and> p_type p = ''bulan'') ps of
        None \<Rightarrow> Inl (PeriodNotFound ty tm
                  (map (\<lambda>p. (year p, month p)) (filter (\<lambda>p. p_type p = ''bulan'') ps)))
      | Some b \<Rightarrow> Inr (b, snd (find_matching ps ty tm (None, None))))"
proof -
  obtain mb ms where r: "find_matching ps ty tm (None, None) = (mb, ms)"
    by (cases "find_matching ps ty tm (None, None)")
  have "mb = find (\<lambda>p. year p = ty \<and> month p = tm \<and> p_type p = ''bulan'') ps"
    using find_matching_fst [of ps ty tm None None] r by simp
  then show ?thesis by (simp add: match_periods_def r split: option.splits)
qed

lemma find_sorted_least:
  assumes "sorted (map f xs)" and "find P xs = Some b" and "x \<in> set xs" and "P x"
  shows "f b \<le> f x"
  using assms
proof (induction xs)
  case Nil
  then show ?case by simp
next
  case (Cons a xs)
  then show ?case by (auto split: if_splits)
qed

text \<open>
  C5 (as amended). If no \<open>bulan\<close> descriptor matches the target exactly, the resolver
  fails with the period-not-found error carrying the (year, month) pairs of all \<open>bulan\<close>
  descriptors, a list that is empty when the worksheet has no \<open>bulan\<close> descriptor at
  all. If a \<open>bulan\<close> match exists, the first one in list order is selected; the selected
  descriptor is never one of a different period, and when the list is sorted by start
  column (as the header parser returns it) no matching descriptor starts before it.
\<close>

theorem match_periods_resolution:
  "(\<not> (\<exists>p \<in> set ps. p_type p = ''bulan'' \<and> year p = ty \<and> month p = tm) \<longrightarrow>
       match_periods ps ty tm =
         Inl (PeriodNotFound ty tm
                (map (\<lambda>p. (year p, month p)) (filter (\<lambda>p. p_type p = ''bulan'') ps))))
   \<and> ((\<exists>p \<in> set ps. p_type p = ''bulan'' \<and> year p = ty \<and> month p = tm) \<longrightarrow>
       (\<exists>b sd. match_periods ps ty tm = Inr (b, sd)
          \<and> find (\<lambda>p. year p = ty \<and> month p = tm \<and> p_type p = ''bulan'') ps = Some b))
   \<and> (\<forall>b sd. match_periods ps ty tm = Inr (b, sd) \<longrightarrow>
         b \<in> set ps \<and> p_type b = ''bulan'' \<and> year b = ty \<and> month b = tm
         \<and> (sorted (map start_col ps) \<longrightarrow>
              (\<forall>p \<in> set ps. p_type p = ''bulan'' \<and> year p = ty \<and> month p = tm
                  \<longrightarrow> start_col b \<le> start_col p)))"
proof -
  let ?P = "\<lambda>p. year p = ty \<and> month p = tm \<and> p_type p = ''bulan''"
  have none: "\<not> (\<exists>p \<in> set ps. p_type p = ''bulan'' \<and> year p = ty \<and> month p = tm)
      \<Longrightarrow> find ?P ps = None"
    by (auto simp: find_None_iff)
  have some: "\<exists>p \<in> set ps. p_type p = ''bulan'' \<and> year p = ty \<and> month p = tm
      \<Longrightarrow> \<exists>b. find ?P ps = Some b"
    by (cases "find ?P ps") (auto simp: find_None_iff)
  have sel: "\<And>b sd. match_periods ps ty tm = Inr (b, sd) \<Longrightarrow> find ?P ps = Some b"
    by (auto simp: match_periods_eq split: option.splits)
  have props: "\<And>b. find ?P ps = Some b \<Longrightarrow> b \<in> set ps \<and> ?P b"
    by (auto simp: find_Some_iff)
  show ?thesis
  proof (intro conjI impI allI ballI)
    assume "\<not> (\<exists>p \<in> set ps. p_type p = ''bulan'' \<and> year p = ty \<and> month p = tm)"
    then show "match_periods ps ty tm =
         Inl (PeriodNotFound ty tm
                (map (\<lambda>p. (year p, month p)) (filter (\<lambda>p. p_type p = ''bulan'') ps)))"
      using none by (simp add: match_periods_eq)
  next
    assume "\<exists>p \<in> set ps. p_type p = ''bulan'' \<and> year p = ty \<and> month p = tm"
    then obtain b where "find ?P ps = Some b" using some by blast
    then show "\<exists>b sd. match_periods ps ty tm = Inr (b, sd) \<and> find ?P ps = Some b"
      by (simp add: match_periods_eq)
  next
    fix b sd assume "match_periods ps ty tm = Inr (b, sd)"
    then show "b \<in> set ps" using sel props by blast
  next
    fix b sd assume "match_periods ps ty tm = Inr (b, sd)"
    then show "p_type b = ''bulan''" using sel props by blast
  next
    fix b sd assume "match_periods ps ty tm = Inr (b, sd)"
    then show "year b = ty" using sel props by blast
  next
    fix b sd assume "match_periods ps ty tm = Inr (b, sd)"
    then show "month b = tm" using sel props by blast
  next
    fix b sd p
    assume m: "match_periods ps ty tm = Inr (b, sd)" and s: "sorted (map start_col ps)"
      and p: "p \<in> set ps" "p_type p = ''bulan'' \<and> year p = ty \<and> month p = tm"
    have "find ?P ps = Some b" using m by (rule sel)
    then show "start_col b \<le> start_col p"
      using find_sorted_least [OF s _ p(1), of ?P b] p(2) by simp
  qed
qed

theorem match_periods_resolution_witness:
  "match_periods [sample_period ''bulan'' 2024 11 3 4, sample_period ''bulan'' 2024 12 5 6,
                    sample_period ''s.d.'' 2024 12 7 8, sample_period ''bulan'' 2024 12 9 10] 2025 1
       = Inl (PeriodNotFound 2025 1 [(2024, 11), (2024, 12), (2024, 12)])
   \<and> match_periods [sample_period ''bulan'' 2024 11 3 4, sample_period ''bulan'' 2024 12 5 6,
                    sample_period ''s.d.'' 2024 12 7 8, sample_period ''bulan'' 2024 12 9 10] 2024 12
       = Inr (sample_period ''bulan'' 2024 12 5 6, Some (sample_period ''s.d.'' 2024 12 7 8))"
proof -
  let ?ps = "[sample_period ''bulan'' 2024 11 3 4, sample_period ''bulan'' 2024 12 5 6,
              sample_period ''s.d.'' 2024 12 7 8, sample_period ''bulan'' 2024 12 9 10]"
  have h1: "\<not> (\<exists>p \<in> set ?ps. p_type p = ''bulan'' \<and> year p = 2025 \<and> month p = 1)"
    by (simp add: sample_period_def)
  have h2: "\<exists>p \<in> set ?ps. p_type p = ''bulan'' \<and> year p = 2024 \<and> month p = 12"
    by (simp add: sample_period_def)
  have e1: "map (\<lambda>p. (year p, month p)) (filter (\<lambda>p. p_type p = ''bulan'') ?ps)
              = [(2024, 11), (2024, 12), (2024, 12)]"
    by (simp add: sample_period_def)
  have e2: "match_periods ?ps 2024 12
       = Inr (sample_period ''bulan'' 2024 12 5 6, Some (sample_period ''s.d.'' 2024 12 7 8))"
    by code_simp
  have r1: "match_periods ?ps 2025 1 = Inl (PeriodNotFound 2025 1
               (map (\<lambda>p. (year p, month p)) (filter (\<lambda>p. p_type p = ''bulan'') ?ps)))"
    using match_periods_resolution [of ?ps 2025 1] h1 by blast
  have r2: "\<exists>b sd. match_periods ?ps 2024 12 = Inr (b, sd)"
    using match_periods_resolution [of ?ps 2024 12] h2 by blast
  show ?thesis
    using r1 r2 e2 unfolding e1 by blast
qed

text \<open>
  C5 as stated fails where it says the error lists at least one available period: on a
  worksheet whose only period header is a cumulative one (\<open>s.d. Desember 2024\<close>), the
  request for (2024, 12) fails with an empty list of available periods.
\<close>

theorem match_periods_empty_list_counterexample:
  "detect_columns plain_str (sample_sheet ''s.d. Desember 2024'' ''REAL'' ''RKAP'') 2024 12
     = Inl (PeriodNotFound 2024 12 [])"
  by code_simp

lemma max_key_nonempty:
  assumes "th \<noteq> []"
  shows "\<exists>mk. max_key th = Inr mk \<and> mk = Max (fst ` set th)"
proof -
  obtain k ks where ks: "map fst th = k # ks" using assms by (cases th) auto
  have "fold max ks k = Max (set (k # ks))" by (rule Max.set_eq_fold [symmetric])
  also have "set (k # ks) = fst ` set th" using ks by (metis set_map)
  finally show ?thesis by (simp add: max_key_def ks)
qed

lemma map_columns_total:
  assumes "th \<noteq> [] \<or> sd \<noteq> None"
  shows "\<exists>cols. map_columns b sd th = Inr cols"
proof (cases sd)
  case None
  then have "th \<noteq> []" using assms by simp
  then obtain mk where "max_key th = Inr mk" using max_key_nonempty by blast
  then show ?thesis using None
    by (simp add: map_columns_def Let_def split: prod.splits)
next
  case (Some s)
  then show ?thesis by (simp add: map_columns_def Let_def)
qed

lemma validate_columns_unresolved:
  "validate_columns cols =
     (if unresolved cols = [] then Inr () else Inl (ColumnsNotDetected (unresolved cols)))"
  by (simp add: validate_columns_def unresolved_def)

lemma unresolved_empty_iff:
  "unresolved cols = [] \<longleftrightarrow>
     REAL_BULAN_INI cols \<noteq> None \<and> RKAP_BULAN_INI cols \<noteq> None
     \<and> REAL_SD cols \<noteq> None \<and> RKAP_SD cols \<noteq> None"
  by (simp add: unresolved_def)

lemma parse_type_header_nonempty:
  "parse_type_header str_of sh row = Inr th \<Longrightarrow> th \<noteq> []"
  by (auto simp: parse_type_header_def split: sum.splits if_splits)

text \<open>
  C7. For every matched \<open>bulan\<close> descriptor, optional \<open>s.d.\<close> descriptor and value-type
  map (the map is never empty: \<open>parse_type_header\<close> raises otherwise), mapping and
  validation fail with the error naming exactly the unresolved ones of the four logical
  columns, in their fixed order, if any is unresolved after the intersection and the
  fallback, and return the four columns otherwise.
\<close>

theorem map_and_validate_names_unresolved:
  assumes "th \<noteq> []"
  shows "\<exists>cols. map_columns b sd th = Inr cols
           \<and> map_and_validate b sd th =
                (if unresolved cols = [] then Inr cols
                 else Inl (ColumnsNotDetected (unresolved cols)))
           \<and> (unresolved cols = [] \<longleftrightarrow>
                  REAL_BULAN_INI cols \<noteq> None \<and> RKAP_BULAN_INI cols \<noteq> None
                  \<and> REAL_SD cols \<noteq> None \<and> RKAP_SD cols \<noteq> None)"
proof -
  obtain cols where c: "map_columns b sd th = Inr cols"
    using map_columns_total [of th sd b] assms by blast
  have "map_and_validate b sd th =
          (if unresolved cols = [] then Inr cols else Inl (ColumnsNotDetected (unresolved cols)))"
    by (simp add: map_and_validate_def c validate_columns_unresolved)
  then show ?thesis using c unresolved_empty_iff by blast
qed

theorem map_and_validate_names_unresolved_witness:
  "map_and_validate (sample_period ''bulan'' 2024 12 5 6) None
         [(5, ''REAL''), (9, ''REAL''), (10, ''RKAP'')]
       = Inl (ColumnsNotDetected [''RKAP_BULAN_INI''])
   \<and> map_and_validate (sample_period ''bulan'' 2024 12 5 6) None
         [(5, ''REAL''), (6, ''RKAP''), (9, ''REAL''), (10, ''RKAP'')]
       = Inr \<lparr> REAL_BULAN_INI = Some 5, RKAP_BULAN_INI = Some 6,
               REAL_SD = Some 9, RKAP_SD = Some 10 \<rparr>"
proof -
  let ?b = "sample_period ''bulan'' 2024 12 5 6"
  let ?t1 = "[(5, ''REAL''), (9, ''REAL''), (10, ''RKAP'')] :: type_headers"
  let ?t2 = "[(5, ''REAL''), (6, ''RKAP''), (9, ''REAL''), (10, ''RKAP'')] :: type_headers"
  have h1: "?t1 \<noteq> []" by simp
  have h2: "?t2 \<noteq> []" by simp
  have m1: "map_columns ?b None ?t1 = Inr \<lparr> REAL_BULAN_INI = Some 5, RKAP_BULAN_INI = None,
               REAL_SD = Some 9, RKAP_SD = Some 10 \<rparr>"
    by code_simp
  have m2: "map_columns ?b None ?t2 = Inr \<lparr> REAL_BULAN_INI = Some 5, RKAP_BULAN_INI = Some 6,
               REAL_SD = Some 9, RKAP_SD = Some 10 \<rparr>"
    by code_simp
  have r1: "map_and_validate ?b None ?t1 = Inl (ColumnsNotDetected [''RKAP_BULAN_INI''])"
    using map_and_validate_names_unresolved [OF h1, of ?b None] m1 by (auto simp: unresolved_def)
  have r2: "map_and_validate ?b None ?t2 = Inr \<lparr> REAL_BULAN_INI = Some 5, RKAP_BULAN_INI = Some 6,
               REAL_SD = Some 9, RKAP_SD = Some 10 \<rparr>"
    using map_and_validate_names_unresolved [OF h2, of ?b None] m2 by (auto simp: unresolved_def)
  show ?thesis using r1 r2 by blast
qed

lemma fold_range_untouched:
  assumes "\<forall>c \<in> set cs. map_of th c \<noteq> Some t"
  shows "fold (range_step th) cs m t = m t"
  using assms
  by (induction cs arbitrary: m) (auto simp: range_step_def split: option.splits)

text \<open>
  C10. When several columns of a descriptor's range carry the same value type, the
  intersection records the highest-numbered of them: if column \<open>c\<close> of the range has
  type \<open>t\<close> and no later column of the range has, the result for \<open>t\<close> is \<open>c\<close>, whatever
  earlier columns of the range have that type.
\<close>

theorem get_columns_in_range_last:
  assumes "s \<le> c" "c \<le> e" "map_of th c = Some t" "t \<noteq> []"
    and "\<forall>c'. c < c' \<and> c' \<le> e \<longrightarrow> map_of th c' \<noteq> Some t"
  shows "get_columns_in_range th s e t = Some c"
proof -
  have split: "[s .. e] = [s .. c - 1] @ c # [c + 1 .. e]"
    using assms(1,2) by (rule upto_split3)
  have later: "\<forall>c' \<in> set [c + 1 .. e]. map_of th c' \<noteq> Some t"
    using assms(5) by auto
  have "get_columns_in_range th s e t
        = fold (range_step th) [c + 1 .. e]
            (range_step th c (fold (range_step th) [s .. c - 1] Map.empty)) t"
    unfolding get_columns_in_range_def split by simp
  also have "\<dots> = range_step th c (fold (range_step th) [s .. c - 1] Map.empty) t"
    using later by (rule fold_range_untouched)
  also have "\<dots> = Some c"
    using assms(3,4) by (simp add: range_step_def)
  finally show ?thesis .
qed

theorem get_columns_in_range_last_witness:
  "get_columns_in_range [(5, ''REAL''), (6, ''REAL''), (7, ''RKAP'')] 5 7 ''REAL'' = Some 6"
proof -
  let ?th = "[(5, ''REAL''), (6, ''REAL''), (7, ''RKAP'')] :: type_headers"
  have h3: "map_of ?th 6 = Some ''REAL''" by simp
  have h4: "''REAL'' \<noteq> []" by simp
  have h5: "\<forall>c'. (6::int) < c' \<and> c' \<le> 7 \<longrightarrow> map_of ?th c' \<noteq> Some ''REAL''"
  proof (intro allI impI)
    fix c' :: int assume "6 < c' \<and> c' \<le> 7"
    then have "c' = 7" by arith
    then show "map_of ?th c' \<noteq> Some ''REAL''" by simp
  qed
  show ?thesis
    using get_columns_in_range_last [of 5 6 7 ?th "''REAL''"] h3 h5 by simp
qed

lemma fallback_scan_find:
  "fallback_scan th cols (nr, nk) =
     (case nr of Some r \<Rightarrow> Some r | None \<Rightarrow> find (\<lambda>c. map_of th c = Some ''REAL'') cols,
      case nk of Some k \<Rightarrow> Some k | None \<Rightarrow> find (\<lambda>c. map_of th c = Some ''RKAP'') cols)"
proof (induction cols arbitrary: nr nk)
  case Nil
  show ?case by (simp split: option.splits)
next
  case (Cons c cols)
  show ?case
    by (cases nr; cases nk) (auto simp: Cons.IH truthy_def Let_def split: option.splits)
qed

lemma find_upto_Some:
  "find P [c1 .. c2] = Some c \<longleftrightarrow>
     c1 \<le> c \<and> c \<le> c2 \<and> P c \<and> (\<forall>c'. c1 \<le> c' \<and> c' < c \<longrightarrow> \<not> P c')"
proof (induction c1 c2 rule: upto.induct)
  case (1 i j)
  show ?case
  proof (cases "i \<le> j")
    case False
    then have "[i .. j] = []" by simp
    then show ?thesis using False by auto
  next
    case True
    then have u: "[i .. j] = i # [i + 1 .. j]" by (rule upto_rec1)
    show ?thesis
    proof (cases "P i")
      case Pi: True
      have "find P [i .. j] = Some i" unfolding u using Pi by simp
      moreover have "(i \<le> c \<and> c \<le> j \<and> P c \<and> (\<forall>c'. i \<le> c' \<and> c' < c \<longrightarrow> \<not> P c')) \<longleftrightarrow> c = i"
      proof
        assume a: "i \<le> c \<and> c \<le> j \<and> P c \<and> (\<forall>c'. i \<le> c' \<and> c' < c \<longrightarrow> \<not> P c')"
        show "c = i"
        proof (rule ccontr)
          assume "c \<noteq> i"
          then have "i \<le> i \<and> i < c" using a by simp
          then have "\<not> P i" using a by blast
          then show False using Pi by simp
        qed
      next
        assume "c = i"
        then show "i \<le> c \<and> c \<le> j \<and> P c \<and> (\<forall>c'. i \<le> c' \<and> c' < c \<longrightarrow> \<not> P c')"
          using True Pi by auto
      qed
      ultimately show ?thesis by auto
    next
      case nPi: False
      have f: "find P [i .. j] = find P [i + 1 .. j]" unfolding u using nPi by simp
      have ih: "find P [i + 1 .. j] = Some c \<longleftrightarrow>
          i + 1 \<le> c \<and> c \<le> j \<and> P c \<and> (\<forall>c'. i + 1 \<le> c' \<and> c' < c \<longrightarrow> \<not> P c')"
        using "1.IH" [OF True] .
      have "(i + 1 \<le> c \<and> c \<le> j \<and> P c \<and> (\<forall>c'. i + 1 \<le> c' \<and> c' < c \<longrightarrow> \<not> P c'))
            \<longleftrightarrow> (i \<le> c \<and> c \<le> j \<and> P c \<and> (\<forall>c'. i \<le> c' \<and> c' < c \<longrightarrow> \<not> P c'))"
      proof
        assume a: "i + 1 \<le> c \<and> c \<le> j \<and> P c \<and> (\<forall>c'. i + 1 \<le> c' \<and> c' < c \<longrightarrow> \<not> P c')"
        have "\<forall>c'. i \<le> c' \<and> c' < c \<longrightarrow> \<not> P c'"
        proof (intro allI impI)
          fix c' assume c': "i \<le> c' \<and> c' < c"
          show "\<not> P c'"
          proof (cases "c' = i")
            case True
            then show ?thesis using nPi by simp
          next
            case False
            then have "i + 1 \<le> c' \<and> c' < c" using c' by simp
            then show ?thesis using a by blast
          qed
        qed
        then show "i \<le> c \<and> c \<le> j \<and> P c \<and> (\<forall>c'. i \<le> c' \<and> c' < c \<longrightarrow> \<not> P c')"
          using a by simp
      next
        assume a: "i \<le> c \<and> c \<le> j \<and> P c \<and> (\<forall>c'. i \<le> c' \<and> c' < c \<longrightarrow> \<not> P c')"
        have "c \<noteq> i" using a nPi by blast
        then have "i + 1 \<le> c" using a by simp
        moreover have "\<forall>c'. i + 1 \<le> c' \<and> c' < c \<longrightarrow> \<not> P c'"
        proof (intro allI impI)
          fix c' assume "i + 1 \<le> c' \<and> c' < c"
          then have "i \<le> c' \<and> c' < c" by simp
          then show "\<not> P c'" using a by blast
        qed
        ultimately show "i + 1 \<le> c \<and> c \<le> j \<and> P c \<and> (\<forall>c'. i + 1 \<le> c' \<and> c' < c \<longrightarrow> \<not> P c')"
          using a by simp
      qed
      then show ?thesis using f ih by simp
    qed
  qed
qed

text \<open>
  C6. Without a matching \<open>s.d.\<close> descriptor the column mapper scans the columns from the
  one after the \<open>bulan\<close> descriptor's end column up to the highest column of the
  value-type map; REAL_SD is the first of them classified \<open>REAL\<close> and RKAP_SD the first
  classified \<open>RKAP\<close>, columns without a classification (or with the other one) being
  skipped. The value-type map is not empty (\<open>parse_type_header\<close> raises otherwise).
\<close>

theorem fallback_takes_first_columns:
  assumes "th \<noteq> []"
  shows "\<exists>cols. map_columns b None th = Inr cols
           \<and> REAL_SD cols = first_typed th ''REAL'' (end_col b + 1) (Max (fst ` set th))
           \<and> RKAP_SD cols = first_typed th ''RKAP'' (end_col b + 1) (Max (fst ` set th))
           \<and> (\<forall>c. REAL_SD cols = Some c \<longleftrightarrow>
                 end_col b < c \<and> c \<le> Max (fst ` set th) \<and> map_of th c = Some ''REAL''
                 \<and> (\<forall>c'. end_col b < c' \<and> c' < c \<longrightarrow> map_of th c' \<noteq> Some ''REAL''))
           \<and> (\<forall>c. RKAP_SD cols = Some c \<longleftrightarrow>
                 end_col b < c \<and> c \<le> Max (fst ` set th) \<and> map_of th c = Some ''RKAP''
                 \<and> (\<forall>c'. end_col b < c' \<and> c' < c \<longrightarrow> map_of th c' \<noteq> Some ''RKAP''))"
proof -
  let ?mk = "Max (fst ` set th)"
  have mk: "max_key th = Inr ?mk" using max_key_nonempty [OF assms] by auto
  let ?cols = "\<lparr> REAL_BULAN_INI = get_columns_in_range th (start_col b) (end_col b) ''REAL'',
                 RKAP_BULAN_INI = get_columns_in_range th (start_col b) (end_col b) ''RKAP'',
                 REAL_SD = first_typed th ''REAL'' (end_col b + 1) ?mk,
                 RKAP_SD = first_typed th ''RKAP'' (end_col b + 1) ?mk \<rparr>"
  have m: "map_columns b None th = Inr ?cols"
    by (simp add: map_columns_def mk Let_def fallback_scan_find first_typed_def)
  have r: "\<forall>c. first_typed th ''REAL'' (end_col b + 1) ?mk = Some c \<longleftrightarrow>
                 end_col b < c \<and> c \<le> ?mk \<and> map_of th c = Some ''REAL''
                 \<and> (\<forall>c'. end_col b < c' \<and> c' < c \<longrightarrow> map_of th c' \<noteq> Some ''REAL'')"
    unfolding first_typed_def find_upto_Some by auto
  have k: "\<forall>c. first_typed th ''RKAP'' (end_col b + 1) ?mk = Some c \<longleftrightarrow>
                 end_col b < c \<and> c \<le> ?mk \<and> map_of th c = Some ''RKAP''
                 \<and> (\<forall>c'. end_col b < c' \<and> c' < c \<longrightarrow> map_of th c' \<noteq> Some ''RKAP'')"
    unfolding first_typed_def find_upto_Some by auto
  show ?thesis
    by (rule exI [of _ ?cols]) (use m r k in simp)
qed

theorem fallback_takes_first_columns_witness:
  "[(5, ''REAL''), (6, ''RKAP''), (9, ''REAL''), (10, ''RKAP''), (11, ''REAL'')] \<noteq> ([] :: type_headers)
   \<and> (\<exists>cols. map_columns (sample_period ''bulan'' 2024 12 5 6) None
                 [(5, ''REAL''), (6, ''RKAP''), (9, ''REAL''), (10, ''RKAP''), (11, ''REAL'')] = Inr cols
           \<and> REAL_SD cols = Some 9 \<and> RKAP_SD cols = Some 10)"
proof -
  let ?th = "[(5, ''REAL''), (6, ''RKAP''), (9, ''REAL''), (10, ''RKAP''), (11, ''REAL'')] :: type_headers"
  let ?b = "sample_period ''bulan'' 2024 12 5 6"
  have h: "?th \<noteq> []" by simp
  have f1: "first_typed ?th ''REAL'' (end_col ?b + 1) (Max (fst ` set ?th)) = Some 9" by code_simp
  have f2: "first_typed ?th ''RKAP'' (end_col ?b + 1) (Max (fst ` set ?th)) = Some 10" by code_simp
  obtain cols where "map_columns ?b None ?th = Inr cols"
      "REAL_SD cols = first_typed ?th ''REAL'' (end_col ?b + 1) (Max (fst ` set ?th))"
      "RKAP_SD cols = first_typed ?th ''RKAP'' (end_col ?b + 1) (Max (fst ` set ?th))"
    using fallback_takes_first_columns [OF h, of ?b] by blast
  then show ?thesis using h f1 f2 by (metis (no_types, lifting))
qed

section \<open>Properties of the header parser\<close>
















lemma year_at_short: "length s < 4 \<Longrightarrow> \<not> year_at i s"
  by (simp add: year_at_def)







lemma parse_period_header_sorted:
  "parse_period_header str_of sh row = Inr ps \<Longrightarrow> sorted (map start_col ps)"
  by (auto simp: parse_period_header_def Let_def split: sum.splits if_splits)

end
